theory Spec2Isabelle
  imports Complex_Main "HOL-Library.Log_Nat"
begin

section \<open>Python values\<close>

text \<open>
  The two clients consume JSON-decoded responses: nested dicts, lists, strings, numbers,
  booleans and None.  A dict is an association list read with \<open>map_of\<close>; an integer is
  unbounded; a float is an IEEE double, kept by its exact rational value, or one of the
  three special values.
\<close>

datatype pyfloat = Finite rat | PosInf | NegInf | NaN

datatype json =
    JNull
  | JBool bool
  | JInt int
  | JFloat pyfloat
  | JStr string
  | JList "json list"
  | JObj "(string \<times> json) list"

text \<open>
  \<open>decimal.Decimal\<close>: a finite value is a sign, a coefficient (never negative) and an
  exponent, as in Python's own representation; \<open>Dec s c e\<close> stands for
  \<open>(-1)^s * c * 10^e\<close>.  A NaN has its sign, whether it is signaling, and a payload.
\<close>

datatype decimal = Dec bool int int | DecInf bool | DecNaN bool bool int

text \<open>The exceptions the two modules can raise, their own and the interpreter's.\<close>

datatype error =
    NoPositionsError
  | InvalidSolanaAddress string
  | InvalidTokens
  | KeyError
  | IndexError
  | TypeError
  | AttributeError
  | ValueError
  | OverflowError
  | InvalidOperation
  | JSONDecodeError
  | RequestException

definition bindE :: "error + 'a \<Rightarrow> ('a \<Rightarrow> error + 'b) \<Rightarrow> error + 'b" where
  "bindE r f = (case r of Inl e \<Rightarrow> Inl e | Inr v \<Rightarrow> f v)"

subsection \<open>Truth value, attribute and item access\<close>

fun py_truthy :: "json \<Rightarrow> bool" where
  "py_truthy JNull = False"
| "py_truthy (JBool b) = b"
| "py_truthy (JInt n) = (n \<noteq> 0)"
| "py_truthy (JFloat f) = (f \<noteq> Finite 0)"
| "py_truthy (JStr s) = (s \<noteq> [])"
| "py_truthy (JList xs) = (xs \<noteq> [])"
| "py_truthy (JObj kvs) = (kvs \<noteq> [])"

text \<open>\<open>d.get(k, dflt)\<close>: only a dict has the method.\<close>

fun py_get :: "json \<Rightarrow> string \<Rightarrow> json \<Rightarrow> error + json" where
  "py_get (JObj kvs) k dflt = (case map_of kvs k of Some v \<Rightarrow> Inr v | None \<Rightarrow> Inr dflt)"
| "py_get _ k dflt = Inl AttributeError"

text \<open>\<open>d[k]\<close> for a string key \<open>k\<close>.\<close>

fun py_getitem :: "json \<Rightarrow> string \<Rightarrow> error + json" where
  "py_getitem (JObj kvs) k = (case map_of kvs k of Some v \<Rightarrow> Inr v | None \<Rightarrow> Inl KeyError)"
| "py_getitem _ k = Inl TypeError"

text \<open>\<open>x[0]\<close>.\<close>

fun py_first :: "json \<Rightarrow> error + json" where
  "py_first (JList []) = Inl IndexError"
| "py_first (JList (x # xs)) = Inr x"
| "py_first (JStr []) = Inl IndexError"
| "py_first (JStr (c # cs)) = Inr (JStr [c])"
| "py_first (JObj kvs) = Inl KeyError"
| "py_first _ = Inl TypeError"

text \<open>\<open>for x in v\<close>: the items a loop over the value visits.\<close>

fun py_iter :: "json \<Rightarrow> error + json list" where
  "py_iter (JList xs) = Inr xs"
| "py_iter (JStr s) = Inr (map (\<lambda>c. JStr [c]) s)"
| "py_iter (JObj kvs) = Inr (map (\<lambda>k. JStr k) (remdups (map fst kvs)))"
| "py_iter _ = Inl TypeError"

text \<open>\<open>v == s\<close> for a value that is a string or None (\<open>os.getenv\<close> may give None).\<close>

definition of_optstr :: "string option \<Rightarrow> json" where
  "of_optstr s = (case s of None \<Rightarrow> JNull | Some t \<Rightarrow> JStr t)"

subsection \<open>Characters and digit strings\<close>

definition is_digit :: "char \<Rightarrow> bool" where
  "is_digit c = (48 \<le> (of_char c :: nat) \<and> (of_char c :: nat) \<le> 57)"

definition digit_val :: "char \<Rightarrow> int" where
  "digit_val c = of_char c - 48"

definition int_of_digits :: "string \<Rightarrow> int" where
  "int_of_digits ds = foldl (\<lambda>a c. 10 * a + digit_val c) 0 ds"

definition lower_char :: "char \<Rightarrow> char" where
  "lower_char c = (if 65 \<le> (of_char c :: nat) \<and> (of_char c :: nat) \<le> 90
                   then char_of ((of_char c :: nat) + 32) else c)"

definition upper_char :: "char \<Rightarrow> char" where
  "upper_char c = (if 97 \<le> (of_char c :: nat) \<and> (of_char c :: nat) \<le> 122
                   then char_of ((of_char c :: nat) - 32) else c)"

definition is_space :: "char \<Rightarrow> bool" where
  "is_space c = ((of_char c :: nat) \<in> {9, 10, 11, 12, 13, 28, 29, 30, 31, 32})"

definition strip :: "string \<Rightarrow> string" where
  "strip s = rev (dropWhile is_space (rev (dropWhile is_space s)))"

text \<open>An optional sign in front: \<open>True\<close> for minus.\<close>

fun split_sign :: "string \<Rightarrow> bool \<times> string" where
  "split_sign [] = (False, [])"
| "split_sign (c # cs) =
     (if c = CHR ''-'' then (True, cs) else if c = CHR ''+'' then (False, cs) else (False, c # cs))"

text \<open>
  The exponent part of a numeric string: nothing, or \<open>e\<close>/\<open>E\<close>, an optional sign and at
  least one digit.
\<close>

definition parse_exponent :: "string \<Rightarrow> int option" where
  "parse_exponent r =
     (case r of
        [] \<Rightarrow> Some 0
      | c # cs \<Rightarrow>
          if lower_char c = CHR ''e'' then
            (case split_sign cs of (neg, ds) \<Rightarrow>
               if ds \<noteq> [] \<and> list_all is_digit ds
               then Some (if neg then - int_of_digits ds else int_of_digits ds)
               else None)
          else None)"

text \<open>
  The number part: integer digits, an optional point with fraction digits, an optional
  exponent; at least one digit before the exponent.  The result is the coefficient, the
  exponent and nothing else: \<open>ip.fp e x\<close> is \<open>int(ip + fp) * 10^(x - len(fp))\<close>.
\<close>

definition parse_number :: "string \<Rightarrow> (int \<times> int) option" where
  "parse_number s =
     (let ip = takeWhile is_digit s;
          r1 = dropWhile is_digit s;
          has_point = (r1 \<noteq> [] \<and> hd r1 = CHR ''.'');
          fp = (if has_point then takeWhile is_digit (tl r1) else []);
          r2 = (if has_point then dropWhile is_digit (tl r1) else r1)
      in if ip = [] \<and> fp = [] then None
         else (case parse_exponent r2 of
                 None \<Rightarrow> None
               | Some x \<Rightarrow> Some (int_of_digits (ip @ fp), x - int (length fp))))"

subsection \<open>Decimal\<close>

text \<open>
  \<open>Decimal(v)\<close>.  A string is stripped of surrounding whitespace and of underscores and
  must be a number, an infinity or a NaN with optional payload, in any letter case;
  the conversion is exact, whatever the precision of the context.  An int converts
  exactly, a bool as the int it is, a float by the exact value of the double.  A list
  coming from JSON holds no tuple, so the tuple form of the constructor rejects it.
  Bounds on the size of exponents (\<open>10^18\<close>) are not modelled.
\<close>

definition decimal_of_string :: "string \<Rightarrow> error + decimal" where
  "decimal_of_string s0 =
     (case split_sign (filter (\<lambda>c. c \<noteq> CHR ''_'') (strip s0)) of (neg, r) \<Rightarrow>
        let l = map lower_char r in
        if l = ''inf'' \<or> l = ''infinity'' then Inr (DecInf neg)
        else if take 3 l = ''nan'' \<and> list_all is_digit (drop 3 l)
          then Inr (DecNaN neg False (int_of_digits (drop 3 l)))
        else if take 4 l = ''snan'' \<and> list_all is_digit (drop 4 l)
          then Inr (DecNaN neg True (int_of_digits (drop 4 l)))
        else (case parse_number r of
                None \<Rightarrow> Inl InvalidOperation
              | Some (c, e) \<Rightarrow> Inr (Dec neg c e)))"

text \<open>
  \<open>Decimal.from_float\<close>: for \<open>|f| = n / 2^k\<close> in lowest terms the result is
  \<open>n * 5^k\<close> with exponent \<open>-k\<close>.
\<close>

definition decimal_of_rat :: "rat \<Rightarrow> decimal" where
  "decimal_of_rat q =
     (case quotient_of \<bar>q\<bar> of (n, d) \<Rightarrow>
        let k = nat (bitlen d - 1) in Dec (q < 0) (n * 5 ^ k) (- int k))"

fun Decimal :: "json \<Rightarrow> error + decimal" where
  "Decimal (JStr s) = decimal_of_string s"
| "Decimal (JInt n) = Inr (Dec (n < 0) \<bar>n\<bar> 0)"
| "Decimal (JBool b) = Inr (Dec False (if b then 1 else 0) 0)"
| "Decimal (JFloat (Finite q)) = Inr (decimal_of_rat q)"
| "Decimal (JFloat PosInf) = Inr (DecInf False)"
| "Decimal (JFloat NegInf) = Inr (DecInf True)"
| "Decimal (JFloat NaN) = Inr (DecNaN False False 0)"
| "Decimal (JList xs) = Inl ValueError"
| "Decimal (JObj kvs) = Inl TypeError"
| "Decimal JNull = Inl TypeError"

text \<open>The number a finite Decimal stands for.\<close>

definition pow10 :: "int \<Rightarrow> rat" where
  "pow10 e = (if 0 \<le> e then 10 ^ nat e else 1 / 10 ^ nat (- e))"


subsection \<open>float\<close>

text \<open>
  Rounding a rational to the nearest double, ties to even: 53 significant bits, no
  exponent below \<open>-1074\<close>, overflow from \<open>2^1024\<close> on.
\<close>

definition pow2 :: "int \<Rightarrow> rat" where
  "pow2 e = (if 0 \<le> e then 2 ^ nat e else 1 / 2 ^ nat (- e))"

definition floor_log2 :: "rat \<Rightarrow> int" where
  "floor_log2 q =
     (case quotient_of q of (n, d) \<Rightarrow>
        let b = bitlen n - bitlen d in if pow2 b \<le> q then b else b - 1)"

definition round_half_even :: "rat \<Rightarrow> int" where
  "round_half_even x =
     (let f = \<lfloor>x\<rfloor>; r = x - of_int f
      in if r < 1 / 2 then f else if 1 / 2 < r then f + 1 else if even f then f else f + 1)"

definition round_double :: "rat \<Rightarrow> pyfloat" where
  "round_double q =
     (if q = 0 then Finite 0
      else let a = \<bar>q\<bar>;
               p = max (floor_log2 a - 52) (- 1074);
               r = of_int (round_half_even (a / pow2 p)) * pow2 p
           in if pow2 1024 \<le> r then (if q < 0 then NegInf else PosInf)
              else Finite (if q < 0 then - r else r))"

text \<open>In a string given to \<open>float\<close> an underscore stands between two digits only.\<close>

fun underscores_ok :: "char \<Rightarrow> string \<Rightarrow> bool" where
  "underscores_ok prev [] = (prev \<noteq> CHR ''_'')"
| "underscores_ok prev (c # cs) =
     ((if c = CHR ''_'' then is_digit prev else if prev = CHR ''_'' then is_digit c else True)
      \<and> underscores_ok c cs)"

definition float_of_string :: "string \<Rightarrow> error + pyfloat" where
  "float_of_string s0 =
     (let s = strip s0 in
      if \<not> underscores_ok (CHR '' '') s then Inl ValueError
      else (case split_sign (filter (\<lambda>c. c \<noteq> CHR ''_'') s) of (neg, r) \<Rightarrow>
        let l = map lower_char r in
        if l = ''inf'' \<or> l = ''infinity'' then Inr (if neg then NegInf else PosInf)
        else if l = ''nan'' then Inr NaN
        else (case parse_number r of
                None \<Rightarrow> Inl ValueError
              | Some (c, e) \<Rightarrow>
                  Inr (round_double ((if neg then - 1 else 1) * of_int c * pow10 e)))))"

text \<open>
  \<open>float(v)\<close>: a string is parsed and rounded (overflow gives an infinity), an int is
  rounded and raises OverflowError when too large, a bool is the int it is.
\<close>

fun py_float :: "json \<Rightarrow> error + pyfloat" where
  "py_float (JFloat f) = Inr f"
| "py_float (JInt n) =
     (case round_double (of_int n) of Finite r \<Rightarrow> Inr (Finite r) | _ \<Rightarrow> Inl OverflowError)"
| "py_float (JBool b) = Inr (Finite (if b then 1 else 0))"
| "py_float (JStr s) = float_of_string s"
| "py_float _ = Inl TypeError"

text \<open>\<open>a > b\<close> on floats: false as soon as one side is a NaN.\<close>

fun float_gt :: "pyfloat \<Rightarrow> pyfloat \<Rightarrow> bool" where
  "float_gt NaN b = False"
| "float_gt a NaN = False"
| "float_gt (Finite a) (Finite b) = (b < a)"
| "float_gt (Finite a) PosInf = False"
| "float_gt (Finite a) NegInf = True"
| "float_gt PosInf b = (b \<noteq> PosInf)"
| "float_gt NegInf b = False"

subsection \<open>Dict keys\<close>

text \<open>
  A list or a dict is unhashable.  As keys, \<open>True\<close> is \<open>1\<close> and \<open>1.0\<close> is \<open>1\<close>; the
  key is kept in the normal form that makes equal keys identical.  (NaN keys, equal
  to nothing, are kept as one key.)
\<close>

fun py_key :: "json \<Rightarrow> error + json" where
  "py_key (JList xs) = Inl TypeError"
| "py_key (JObj kvs) = Inl TypeError"
| "py_key (JBool b) = Inr (JInt (if b then 1 else 0))"
| "py_key (JFloat (Finite q)) =
     Inr (if of_int \<lfloor>q\<rfloor> = q then JInt \<lfloor>q\<rfloor> else JFloat (Finite q))"
| "py_key v = Inr v"

subsection \<open>Strings and URLs\<close>

text \<open>\<open>sep.join(xs)\<close>\<close>

fun join :: "string \<Rightarrow> string list \<Rightarrow> string" where
  "join sep [] = []"
| "join sep [x] = x"
| "join sep (x # y # ys) = x @ sep @ join sep (y # ys)"

text \<open>\<open>urllib.parse.quote\<close> with its default safe character \<open>/\<close>.\<close>

definition is_alnum :: "char \<Rightarrow> bool" where
  "is_alnum c = (let n = (of_char c :: nat)
     in (48 \<le> n \<and> n \<le> 57) \<or> (65 \<le> n \<and> n \<le> 90) \<or> (97 \<le> n \<and> n \<le> 122))"

definition hex_digit :: "nat \<Rightarrow> char" where
  "hex_digit n = (if n < 10 then char_of (48 + n) else char_of (55 + n))"

definition quote_char :: "char \<Rightarrow> string" where
  "quote_char c =
     (if is_alnum c \<or> c \<in> set ''_.-~/'' then [c]
      else [CHR ''%'', hex_digit ((of_char c :: nat) div 16), hex_digit ((of_char c :: nat) mod 16)])"

definition quote :: "string \<Rightarrow> string" where
  "quote s = concat (map quote_char s)"

section \<open>Shared shapes and collaborators\<close>

text \<open>
  Modelled from the spec: \<open>common.PriceInfo\<close> is not among the sources; it is the pair of
  an exact decimal price (field \<open>value\<close>) and an exact decimal liquidity.
\<close>

datatype PriceInfo = PriceInfo (price_value: decimal) (price_liquidity: decimal)

text \<open>
  Modelled from the spec: \<open>common.TokenOverview\<close> is not among the sources; it has the
  six fields below, filled with whatever the caller passes, and is built in one step
  from exactly these six keywords.
\<close>

datatype pyval = PJson json | PDecimal decimal

record TokenOverview =
  price :: pyval
  symbol :: pyval
  decimals :: pyval
  lastTradeUnixTime :: pyval
  liquidity :: pyval
  "supply" :: pyval

definition overview_fields :: "string list" where
  "overview_fields =
     [''price'', ''symbol'', ''decimals'', ''lastTradeUnixTime'', ''liquidity'', ''supply'']"

text \<open>\<open>TokenOverview(**d)\<close>\<close>

fun TokenOverview_of_kwargs :: "json \<Rightarrow> error + TokenOverview" where
  "TokenOverview_of_kwargs (JObj kvs) =
     (if set (map fst kvs) = set overview_fields then
        Inr \<lparr> price = PJson (the (map_of kvs ''price'')),
              symbol = PJson (the (map_of kvs ''symbol'')),
              decimals = PJson (the (map_of kvs ''decimals'')),
              lastTradeUnixTime = PJson (the (map_of kvs ''lastTradeUnixTime'')),
              liquidity = PJson (the (map_of kvs ''liquidity'')),
              supply = PJson (the (map_of kvs ''supply'')) \<rparr>
      else Inl TypeError)"
| "TokenOverview_of_kwargs _ = Inl TypeError"

text \<open>
  Modelled from the spec: \<open>helper.is_solana_address\<close> is not among the sources.  The
  clients take the validator as a parameter; this is the validator the spec describes:
  base58 text that decodes to exactly 32 bytes (leading \<open>1\<close>s are zero bytes).
\<close>

definition b58_alphabet :: string where
  "b58_alphabet = ''123456789ABCDEFGHJKLMNPQRSTUVWXYZabcdefghijkmnopqrstuvwxyz''"

fun b58_index :: "char \<Rightarrow> string \<Rightarrow> int" where
  "b58_index c [] = 0"
| "b58_index c (x # xs) = (if c = x then 0 else 1 + b58_index c xs)"

definition b58_value :: "string \<Rightarrow> int" where
  "b58_value s = foldl (\<lambda>a c. 58 * a + b58_index c b58_alphabet) 0 s"

definition byte_length :: "int \<Rightarrow> int" where
  "byte_length n = (bitlen n + 7) div 8"

definition is_solana_address :: "string \<Rightarrow> bool" where
  "is_solana_address s =
     (list_all (\<lambda>c. c \<in> set b58_alphabet) s
      \<and> int (length (takeWhile (\<lambda>c. c = CHR ''1'') s)) + byte_length (b58_value s) = 32)"

subsection \<open>The network\<close>

text \<open>
  A request is its method, its URL and the headers the client sets.  The network answers
  a request with a response, or not at all (\<open>requests\<close> raises).  A response has its
  status code and its body decoded as JSON, if it decodes.  Every operation that may
  call the network returns the requests it sent, in order, next to its outcome.
\<close>

datatype request = Request string string "(string \<times> string option) list"

record response =
  status_code :: int
  body :: "json option"

type_synonym net = "request \<Rightarrow> response option"

definition send :: "net \<Rightarrow> request \<Rightarrow> request list \<times> (error + response)" where
  "send nw rq = ([rq], case nw rq of None \<Rightarrow> Inl RequestException | Some r \<Rightarrow> Inr r)"

text \<open>\<open>response.json()\<close>\<close>

definition response_json :: "response \<Rightarrow> error + json" where
  "response_json r = (case body r of None \<Rightarrow> Inl JSONDecodeError | Some j \<Rightarrow> Inr j)"

text \<open>What follows a call works on its outcome and sends nothing more.\<close>

definition after :: "request list \<times> (error + 'a) \<Rightarrow> ('a \<Rightarrow> error + 'b) \<Rightarrow> request list \<times> (error + 'b)" where
  "after r f = (fst r, bindE (snd r) f)"

section \<open>BirdEyeClient\<close>

text \<open>\<open>BIRD_EYE_TOKEN\<close> is read from the environment and may be missing.\<close>

definition headers :: "string option \<Rightarrow> (string \<times> string option) list" where
  "headers BIRD_EYE_TOKEN =
     [(''accept'', Some ''application/json''),
      (''x-chain'', Some ''solana''),
      (''X-API-KEY'', BIRD_EYE_TOKEN)]"

definition make_api_call :: "string option \<Rightarrow> net \<Rightarrow> string \<Rightarrow> string \<Rightarrow> request list \<times> (error + response)" where
  "make_api_call BIRD_EYE_TOKEN nw method query_url =
     (let m = map upper_char method in
      if m = ''GET'' \<or> m = ''POST'' then send nw (Request m query_url (headers BIRD_EYE_TOKEN))
      else ([], Inl ValueError))"

text \<open>\<open>Decimal(token_data.get(k, "0"))\<close>\<close>

definition field_decimal :: "json \<Rightarrow> string \<Rightarrow> error + decimal" where
  "field_decimal token_data k = bindE (py_get token_data k (JStr ''0'')) Decimal"

text \<open>The body of the loop of \<open>fetch_prices\<close> for one address: the entry to store, if any.\<close>

definition price_entry :: "json \<Rightarrow> string \<Rightarrow> error + PriceInfo option" where
  "price_entry data token_address =
     bindE (py_get data ''data'' (JObj [])) (\<lambda>d.
     bindE (py_get d token_address (JObj [])) (\<lambda>token_data.
       if py_truthy token_data then
         bindE (field_decimal token_data ''price'') (\<lambda>v.
         bindE (field_decimal token_data ''liquidity'') (\<lambda>liq.
           Inr (Some (PriceInfo v liq))))
       else Inr None))"

fun collect_prices :: "json \<Rightarrow> string list \<Rightarrow> (string \<rightharpoonup> PriceInfo) \<Rightarrow> error + (string \<rightharpoonup> PriceInfo)" where
  "collect_prices data [] prices = Inr prices"
| "collect_prices data (token_address # rest) prices =
     (case price_entry data token_address of
        Inl e \<Rightarrow> Inl e
      | Inr None \<Rightarrow> collect_prices data rest prices
      | Inr (Some info) \<Rightarrow> collect_prices data rest (prices(token_address \<mapsto> info)))"

definition fetch_prices :: "string option \<Rightarrow> net \<Rightarrow> string list \<Rightarrow> request list \<times> (error + (string \<rightharpoonup> PriceInfo))" where
  "fetch_prices BIRD_EYE_TOKEN nw token_addresses =
     (if token_addresses = [] then ([], Inl NoPositionsError)
      else
        let base_url = ''https://public-api.birdeye.so/defi/multi_price'';
            list_address = join '','' token_addresses;
            encoded_list_address = quote list_address;
            url = base_url @ ''?list_address='' @ encoded_list_address
        in after (make_api_call BIRD_EYE_TOKEN nw ''GET'' url) (\<lambda>response.
             if status_code response \<noteq> 200 then Inl InvalidTokens
             else bindE (response_json response) (\<lambda>data.
                  bindE (py_get data ''success'' JNull) (\<lambda>success.
                    if \<not> py_truthy success then Inl InvalidTokens
                    else collect_prices data token_addresses Map.empty))))"

definition birdeye_fetch_token_overview :: "(string \<Rightarrow> bool) \<Rightarrow> string option \<Rightarrow> net \<Rightarrow> string \<Rightarrow> request list \<times> (error + TokenOverview)" where
  "birdeye_fetch_token_overview is_sol BIRD_EYE_TOKEN nw address =
     (if \<not> is_sol address then ([], Inl (InvalidSolanaAddress address))
      else
        let url = ''https://api.birdeye.so/v1/token-overview/'' @ address
        in after (make_api_call BIRD_EYE_TOKEN nw ''GET'' url) (\<lambda>response.
             if status_code response \<noteq> 200 then Inl InvalidTokens
             else bindE (response_json response) (\<lambda>data.
                  bindE (py_get data ''success'' JNull) (\<lambda>success.
                    if \<not> py_truthy success then Inl InvalidTokens
                    else bindE (py_get data ''data'' (JObj [])) TokenOverview_of_kwargs))))"

section \<open>DexScreenerClient\<close>

definition validate_token_address :: "(string \<Rightarrow> bool) \<Rightarrow> string \<Rightarrow> error + unit" where
  "validate_token_address is_sol token_address =
     (if token_address = [] then Inl NoPositionsError
      else if \<not> is_sol token_address then Inl (InvalidSolanaAddress token_address)
      else Inr ())"

fun validate_each :: "(string \<Rightarrow> bool) \<Rightarrow> string list \<Rightarrow> error + unit" where
  "validate_each is_sol [] = Inr ()"
| "validate_each is_sol (address # rest) =
     (case validate_token_address is_sol address of
        Inl e \<Rightarrow> Inl e
      | Inr u \<Rightarrow> validate_each is_sol rest)"

definition validate_token_addresses :: "(string \<Rightarrow> bool) \<Rightarrow> string list \<Rightarrow> error + unit" where
  "validate_token_addresses is_sol token_addresses =
     (if token_addresses = [] then Inl NoPositionsError
      else validate_each is_sol token_addresses)"

definition validate_response :: "response \<Rightarrow> error + unit" where
  "validate_response resp = (if status_code resp \<noteq> 200 then Inl InvalidTokens else Inr ())"

definition call_api :: "(string \<Rightarrow> bool) \<Rightarrow> net \<Rightarrow> string \<Rightarrow> request list \<times> (error + json)" where
  "call_api is_sol nw token_address =
     (case validate_token_address is_sol token_address of
        Inl e \<Rightarrow> ([], Inl e)
      | Inr u \<Rightarrow>
          let url = ''https://api.dexscreener.io/latest/dex/tokens/'' @ token_address
          in after (send nw (Request ''GET'' url [])) (\<lambda>response.
               bindE (validate_response response) (\<lambda>u. response_json response)))"

definition call_api_bulk :: "(string \<Rightarrow> bool) \<Rightarrow> net \<Rightarrow> string list \<Rightarrow> request list \<times> (error + json)" where
  "call_api_bulk is_sol nw token_addresses =
     (case validate_token_addresses is_sol token_addresses of
        Inl e \<Rightarrow> ([], Inl e)
      | Inr u \<Rightarrow>
          let token_addresses_str = join '','' token_addresses;
              url = ''https://api.dexscreener.io/latest/dex/tokens/'' @ token_addresses_str
          in after (send nw (Request ''GET'' url [])) (\<lambda>response.
               bindE (validate_response response) (\<lambda>u. response_json response)))"

text \<open>The body of the loop of \<open>fetch_prices_dex\<close> for one pair: the key and the entry.\<close>

definition pair_price :: "json \<Rightarrow> error + (json \<times> PriceInfo)" where
  "pair_price pair =
     bindE (py_getitem pair ''priceNative'') (\<lambda>pn.
     bindE (Decimal pn) (\<lambda>price.
     bindE (py_getitem pair ''liquidity'') (\<lambda>l.
     bindE (py_getitem l ''usd'') (\<lambda>u.
     bindE (Decimal u) (\<lambda>liq.
     bindE (py_getitem pair ''baseToken'') (\<lambda>b.
     bindE (py_getitem b ''address'') (\<lambda>a.
     bindE (py_key a) (\<lambda>k.
       Inr (k, PriceInfo price liq)))))))))"

fun collect_pairs :: "json list \<Rightarrow> (json \<rightharpoonup> PriceInfo) \<Rightarrow> error + (json \<rightharpoonup> PriceInfo)" where
  "collect_pairs [] prices_and_liquidity = Inr prices_and_liquidity"
| "collect_pairs (pair # rest) prices_and_liquidity =
     (case pair_price pair of
        Inl e \<Rightarrow> Inl e
      | Inr (k, price_info) \<Rightarrow> collect_pairs rest (prices_and_liquidity(k \<mapsto> price_info)))"

definition fetch_prices_dex :: "(string \<Rightarrow> bool) \<Rightarrow> net \<Rightarrow> string list \<Rightarrow> request list \<times> (error + (json \<rightharpoonup> PriceInfo))" where
  "fetch_prices_dex is_sol nw token_addresses =
     after (call_api_bulk is_sol nw token_addresses) (\<lambda>data.
       bindE (py_getitem data ''pairs'') (\<lambda>ps.
       bindE (py_iter ps) (\<lambda>pairs.
         collect_pairs pairs Map.empty)))"

definition dex_fetch_token_overview :: "(string \<Rightarrow> bool) \<Rightarrow> net \<Rightarrow> string \<Rightarrow> request list \<times> (error + TokenOverview)" where
  "dex_fetch_token_overview is_sol nw address =
     after (call_api is_sol nw address) (\<lambda>data.
       bindE (py_getitem data ''pairs'') (\<lambda>ps.
       bindE (py_first ps) (\<lambda>pair.
       bindE (py_getitem pair ''baseToken'') (\<lambda>base_token.
       bindE (py_getitem pair ''liquidity'') (\<lambda>liq.
       bindE (py_get pair ''priceUsd'' (JStr ''0'')) (\<lambda>price_usd.
       bindE (Decimal price_usd) (\<lambda>p.
       bindE (py_get base_token ''symbol'' (JStr [])) (\<lambda>sym.
       bindE (py_get base_token ''decimals'' (JInt 0)) (\<lambda>decs.
       bindE (py_get pair ''lastTradeUnixTime'' (JInt 0)) (\<lambda>last_trade.
       bindE (py_getitem liq ''usd'') (\<lambda>usd.
       bindE (Decimal usd) (\<lambda>l.
       bindE (py_get pair ''supply'' (JInt 0)) (\<lambda>sup.
         Inr \<lparr> price = PDecimal p,
               symbol = PJson sym,
               decimals = PJson decs,
               lastTradeUnixTime = PJson last_trade,
               liquidity = PDecimal l,
               supply = PJson sup \<rparr>)))))))))))))"

text \<open>
  \<open>find_largest_pool_with_sol\<close>.  \<open>SOL_MINT\<close> is read from the environment and may be
  missing.  The test of the \<open>if\<close> in the loop: the right operand of \<open>and\<close> is evaluated
  only when the left one is true.
\<close>

definition pair_matches :: "string option \<Rightarrow> string \<Rightarrow> json \<Rightarrow> error + bool" where
  "pair_matches SOL_MINT address entry =
     bindE (py_get entry ''baseToken'' (JObj [])) (\<lambda>b.
     bindE (py_get b ''address'' JNull) (\<lambda>a.
       if a = JStr address then
         bindE (py_getitem entry ''quoteToken'') (\<lambda>q.
         bindE (py_getitem q ''address'') (\<lambda>qa.
           Inr (qa = of_optstr SOL_MINT)))
       else Inr False))"

definition entry_liquidity :: "json \<Rightarrow> error + pyfloat" where
  "entry_liquidity entry =
     bindE (py_get entry ''liquidity'' (JObj [])) (\<lambda>l.
     bindE (py_get l ''usd'' (JInt 0)) py_float)"

text \<open>
  The loop, on the pair \<open>(max_entry, max_liquidity_usd)\<close>; the initial \<open>-1\<close> is an int,
  which compares with a float as the float \<open>-1.0\<close> does.
\<close>

fun largest_loop :: "string option \<Rightarrow> string \<Rightarrow> json list \<Rightarrow> json \<times> pyfloat \<Rightarrow> error + json \<times> pyfloat" where
  "largest_loop SOL_MINT address [] st = Inr st"
| "largest_loop SOL_MINT address (entry # rest) (max_entry, max_liquidity_usd) =
     (case pair_matches SOL_MINT address entry of
        Inl e \<Rightarrow> Inl e
      | Inr False \<Rightarrow> largest_loop SOL_MINT address rest (max_entry, max_liquidity_usd)
      | Inr True \<Rightarrow>
          (case entry_liquidity entry of
             Inl e \<Rightarrow> Inl e
           | Inr liquidity_usd \<Rightarrow>
               if float_gt liquidity_usd max_liquidity_usd
               then largest_loop SOL_MINT address rest (entry, liquidity_usd)
               else largest_loop SOL_MINT address rest (max_entry, max_liquidity_usd)))"

definition find_largest_pool_with_sol :: "string option \<Rightarrow> json list \<Rightarrow> string \<Rightarrow> error + json" where
  "find_largest_pool_with_sol SOL_MINT token_pairs address =
     bindE (largest_loop SOL_MINT address token_pairs (JObj [], Finite (- 1))) (\<lambda>st. Inr (fst st))"

section \<open>Sample inputs\<close>

text \<open>A network that answers nothing: any request sent through it raises.\<close>

definition no_network :: net where
  "no_network rq = None"

text \<open>A network that answers every request with the same response.\<close>

definition respond_with :: "response \<Rightarrow> net" where
  "respond_with r rq = Some r"

definition json_response :: "int \<Rightarrow> json \<Rightarrow> response" where
  "json_response code j = \<lparr> status_code = code, body = Some j \<rparr>"

text \<open>Two well-known addresses: the system program and the wrapped-SOL mint.\<close>

definition system_program :: string where
  "system_program = ''11111111111111111111111111111111''"

definition wrapped_sol :: string where
  "wrapped_sol = ''So11111111111111111111111111111111111111112''"

text \<open>
  A pair record as DexScreener sends it, cut down to the fields the client reads: the
  addresses of the base and the quote token, the native price, the USD liquidity.
\<close>

definition sample_pair :: "string \<Rightarrow> string \<Rightarrow> string \<Rightarrow> json \<Rightarrow> json" where
  "sample_pair base quote_token price_native usd =
     JObj [(''baseToken'', JObj [(''address'', JStr base)]),
           (''quoteToken'', JObj [(''address'', JStr quote_token)]),
           (''priceNative'', JStr price_native),
           (''liquidity'', JObj [(''usd'', usd)])]"

text \<open>
  A multi-price response of BirdEye with data for \<open>TOKEN1\<close> only, and a DexScreener
  response whose only pair has the wrapped-SOL mint as base token and the system program
  as quote token, as the provider answers a request for the quote token of a pair.
\<close>

definition token1_response :: json where
  "token1_response =
     JObj [(''success'', JBool True),
           (''data'', JObj [(''TOKEN1'',
              JObj [(''price'', JStr ''1.23''), (''liquidity'', JStr ''1000'')])])]"

definition quote_side_response :: json where
  "quote_side_response =
     JObj [(''pairs'', JList [sample_pair wrapped_sol system_program ''1.5'' (JInt 10)])]"

text \<open>A DexScreener response with two pairs of the same base token around a third pair.\<close>

definition two_pools_response :: json where
  "two_pools_response =
     JObj [(''pairs'', JList
       [sample_pair system_program wrapped_sol ''1.0'' (JInt 900),
        sample_pair wrapped_sol system_program ''2.0'' (JInt 50),
        sample_pair system_program wrapped_sol ''3.0'' (JInt 7)])]"

section \<open>Vocabulary of the properties\<close>

text \<open>
  The payload \<open>d\<close> of a multi-price response has data for an address: an entry that is
  there and is not empty (not falsy).
\<close>

definition has_data :: "(string \<times> json) list \<Rightarrow> string \<Rightarrow> bool" where
  "has_data d a = (case map_of d a of None \<Rightarrow> False | Some v \<Rightarrow> py_truthy v)"

text \<open>
  Reading a field for the sake of a statement: nothing when the value is no dict or has
  no such key.  The base-token and the quote-token address of a pair record.
\<close>

definition field :: "json \<Rightarrow> string \<Rightarrow> json option" where
  "field j k = (case j of JObj kvs \<Rightarrow> map_of kvs k | _ \<Rightarrow> None)"

definition base_address :: "json \<Rightarrow> json option" where
  "base_address e = Option.bind (field e ''baseToken'') (\<lambda>b. field b ''address'')"

definition quote_address :: "json \<Rightarrow> json option" where
  "quote_address e = Option.bind (field e ''quoteToken'') (\<lambda>q. field q ''address'')"

text \<open>
  A pair matches: its base token is the given address and its quote token is the
  configured wrapped-SOL mint.
\<close>

definition is_sol_pool :: "string option \<Rightarrow> string \<Rightarrow> json \<Rightarrow> bool" where
  "is_sol_pool SOL_MINT address e =
     (base_address e = Some (JStr address) \<and> quote_address e = Some (of_optstr SOL_MINT))"

text \<open>
  The shape of a pair record: a dict whose \<open>baseToken\<close>, when there is one, is a dict, and
  whose \<open>quoteToken\<close> is a dict with an \<open>address\<close>.
\<close>

definition pair_shaped :: "json \<Rightarrow> bool" where
  "pair_shaped e =
     (case e of
        JObj kvs \<Rightarrow>
          (case map_of kvs ''baseToken'' of
             None \<Rightarrow> True | Some (JObj b) \<Rightarrow> True | Some other \<Rightarrow> False) \<and>
          (case map_of kvs ''quoteToken'' of
             Some (JObj q) \<Rightarrow> map_of q ''address'' \<noteq> None | other \<Rightarrow> False)
      | other \<Rightarrow> False)"





section \<open>Properties\<close>

subsection \<open>Input validation\<close>

lemma validate_each_find:
  "validate_each is_sol addrs =
     (case find (\<lambda>b. b = [] \<or> \<not> is_sol b) addrs of
        None \<Rightarrow> Inr ()
      | Some b \<Rightarrow> Inl (if b = [] then NoPositionsError else InvalidSolanaAddress b))"
  by (induction addrs) (auto simp: validate_token_address_def)

lemma empty_not_solana: "\<not> is_solana_address []"
  by (simp add: is_solana_address_def b58_value_def byte_length_def)

text \<open>
  C6.  Given the empty list, \<open>fetch_prices\<close> and \<open>fetch_prices_dex\<close> both raise
  NoPositionsError, and neither has sent a request.
\<close>

theorem empty_input_rejected:
  "fetch_prices tok nw [] = ([], Inl NoPositionsError) \<and>
   fetch_prices_dex is_sol nw [] = ([], Inl NoPositionsError)"
  by (simp add: fetch_prices_def fetch_prices_dex_def call_api_bulk_def
      validate_token_addresses_def after_def bindE_def)

text \<open>
  C5, as the claim states it, fails: the empty string is no Solana address, and the
  overview method of DexScreenerClient rejects it with NoPositionsError, not with
  InvalidSolanaAddress, since \<open>_validate_token_address\<close> tests for emptiness first.
\<close>

theorem empty_address_counterexample:
  "\<not> is_solana_address [] \<and>
   dex_fetch_token_overview is_solana_address no_network [] = ([], Inl NoPositionsError)"
  by (simp add: empty_not_solana dex_fetch_token_overview_def call_api_def
      validate_token_address_def after_def bindE_def)

text \<open>
  C5, amended.  For an address \<open>a\<close> that the validator rejects, no request is sent and:
  the overview method of BirdEyeClient raises InvalidSolanaAddress; the overview method
  of DexScreenerClient raises InvalidSolanaAddress when \<open>a\<close> is not empty and
  NoPositionsError when it is; and for a list that contains \<open>a\<close>, \<open>fetch_prices_dex\<close>
  raises the error of the first address of the list that is empty or rejected
  (NoPositionsError if that one is empty, InvalidSolanaAddress otherwise).
\<close>

theorem invalid_address_rejected:
  assumes "\<not> is_sol a" and "a \<in> set addrs"
  shows "birdeye_fetch_token_overview is_sol tok nw a = ([], Inl (InvalidSolanaAddress a)) \<and>
     dex_fetch_token_overview is_sol nw a =
       ([], Inl (if a = [] then NoPositionsError else InvalidSolanaAddress a)) \<and>
     (\<exists>b. find (\<lambda>b. b = [] \<or> \<not> is_sol b) addrs = Some b \<and>
        fetch_prices_dex is_sol nw addrs =
          ([], Inl (if b = [] then NoPositionsError else InvalidSolanaAddress b)))"
proof -
  have A: "birdeye_fetch_token_overview is_sol tok nw a = ([], Inl (InvalidSolanaAddress a))"
    using assms(1) by (simp add: birdeye_fetch_token_overview_def)
  have B: "dex_fetch_token_overview is_sol nw a =
       ([], Inl (if a = [] then NoPositionsError else InvalidSolanaAddress a))"
    using assms(1)
    by (simp add: dex_fetch_token_overview_def call_api_def validate_token_address_def
        after_def bindE_def)
  from assms obtain b where b: "find (\<lambda>b. b = [] \<or> \<not> is_sol b) addrs = Some b"
    by (cases "find (\<lambda>b. b = [] \<or> \<not> is_sol b) addrs") (auto simp: find_None_iff)
  from assms(2) have ne: "addrs \<noteq> []" by auto
  have C: "fetch_prices_dex is_sol nw addrs =
          ([], Inl (if b = [] then NoPositionsError else InvalidSolanaAddress b))"
    using b ne
    by (simp add: fetch_prices_dex_def call_api_bulk_def validate_token_addresses_def
        validate_each_find after_def bindE_def)
  from A B b C show ?thesis by blast
qed

lemma abc_invalid: "\<not> is_solana_address ''abc''"
  by code_simp

lemma find_abc:
  "find (\<lambda>b. b = [] \<or> \<not> is_solana_address b)
     [''11111111111111111111111111111111'', ''abc'', []] = Some ''abc''"
  by code_simp

theorem invalid_address_rejected_witness:
  "\<not> is_solana_address ''abc'' \<and>
   birdeye_fetch_token_overview is_solana_address None no_network ''abc''
     = ([], Inl (InvalidSolanaAddress ''abc'')) \<and>
   dex_fetch_token_overview is_solana_address no_network ''abc''
     = ([], Inl (InvalidSolanaAddress ''abc'')) \<and>
   fetch_prices_dex is_solana_address no_network
       [''11111111111111111111111111111111'', ''abc'', []]
     = ([], Inl (InvalidSolanaAddress ''abc''))"
proof -
  have mem: "''abc'' \<in> set [''11111111111111111111111111111111'', ''abc'', []]"
    by simp
  note t = invalid_address_rejected [of is_solana_address "''abc''"
      "[''11111111111111111111111111111111'', ''abc'', []]" None no_network,
      OF abc_invalid mem]
  from t have A: "birdeye_fetch_token_overview is_solana_address None no_network ''abc''
     = ([], Inl (InvalidSolanaAddress ''abc''))"
    by (rule conjunct1)
  from t have B: "dex_fetch_token_overview is_solana_address no_network ''abc''
     = ([], Inl (InvalidSolanaAddress ''abc''))"
    by simp
  from t obtain b where
    b: "find (\<lambda>b. b = [] \<or> \<not> is_solana_address b)
          [''11111111111111111111111111111111'', ''abc'', []] = Some b"
    and r: "fetch_prices_dex is_solana_address no_network
              [''11111111111111111111111111111111'', ''abc'', []]
            = ([], Inl (if b = [] then NoPositionsError else InvalidSolanaAddress b))"
    by blast
  from b have "b = ''abc''"
    unfolding find_abc by simp
  with r have C: "fetch_prices_dex is_solana_address no_network
       [''11111111111111111111111111111111'', ''abc'', []]
     = ([], Inl (InvalidSolanaAddress ''abc''))"
    by simp
  from abc_invalid A B C show ?thesis by blast
qed

subsection \<open>The multi-price loop of BirdEyeClient\<close>

lemma fetch_prices_ok:
  assumes "addrs \<noteq> []" and "\<And>rq. nw rq = Some r" and "status_code r = 200"
    and "body r = Some (JObj kvs)" and "map_of kvs ''success'' = Some flag" and "py_truthy flag"
  shows "snd (fetch_prices tok nw addrs) = collect_prices (JObj kvs) addrs Map.empty"
  using assms
  by (simp add: fetch_prices_def Let_def make_api_call_def upper_char_def send_def after_def
      bindE_def response_json_def)

lemma price_entry_no_data:
  "map_of kvs ''data'' = None \<Longrightarrow> price_entry (JObj kvs) a = Inr None"
  by (simp add: price_entry_def bindE_def)

lemma price_entry_skip:
  "map_of kvs ''data'' = Some (JObj d) \<Longrightarrow> \<not> has_data d a \<Longrightarrow> price_entry (JObj kvs) a = Inr None"
  by (auto simp: price_entry_def bindE_def has_data_def split: option.splits)

lemma collect_prices_filter:
  "(\<And>a. \<not> P a \<Longrightarrow> price_entry data a = Inr None) \<Longrightarrow>
   collect_prices data (filter P addrs) m = collect_prices data addrs m"
  by (induction addrs arbitrary: m) (auto split: sum.splits option.splits)

lemma collect_prices_all_skipped:
  "(\<And>a. a \<in> set addrs \<Longrightarrow> price_entry data a = Inr None) \<Longrightarrow>
   collect_prices data addrs m = Inr m"
  by (induction addrs arbitrary: m) auto

lemma collect_prices_lookup:
  "collect_prices data addrs m0 = Inr m \<Longrightarrow>
   m a = (case (if a \<in> set addrs then price_entry data a else Inr None) of
            Inr (Some i) \<Rightarrow> Some i | _ \<Rightarrow> m0 a)"
proof (induction addrs arbitrary: m0)
  case Nil
  then show ?case by simp
next
  case (Cons x xs)
  show ?case
  proof (cases "price_entry data x")
    case (Inl e)
    with Cons.prems show ?thesis by simp
  next
    case (Inr r)
    show ?thesis
    proof (cases r)
      case None
      with Inr Cons.prems have "collect_prices data xs m0 = Inr m" by simp
      from Cons.IH[OF this] Inr None show ?thesis by auto
    next
      case (Some i)
      with Inr Cons.prems have "collect_prices data xs (m0(x \<mapsto> i)) = Inr m" by simp
      from Cons.IH[OF this] Inr Some show ?thesis by (auto split: sum.splits option.splits)
    qed
  qed
qed

lemma collect_prices_total:
  "(\<And>a. a \<in> set addrs \<Longrightarrow> \<exists>r. price_entry data a = Inr r) \<Longrightarrow>
   \<exists>m. collect_prices data addrs m0 = Inr m"
proof (induction addrs arbitrary: m0)
  case Nil
  then show ?case by simp
next
  case (Cons x xs)
  from Cons.prems obtain r where r: "price_entry data x = Inr r" by auto
  from Cons.prems have "\<And>a. a \<in> set xs \<Longrightarrow> \<exists>r. price_entry data a = Inr r" by auto
  from Cons.IH[OF this] r show ?case by (cases r) auto
qed

text \<open>
  C10, as the claim states it, fails: \<open>fetch_prices\<close> accepts the status 200 only, and a
  response with another status of the 2xx class, here 201, with a true success flag and
  no \<open>data\<close> key, raises InvalidTokens.
\<close>

theorem created_status_counterexample:
  "snd (fetch_prices None
         (respond_with (json_response 201 (JObj [(''success'', JBool True)])))
         [system_program]) = Inl InvalidTokens"
  by (simp add: fetch_prices_def Let_def make_api_call_def upper_char_def send_def after_def
      bindE_def respond_with_def json_response_def system_program_def)

text \<open>
  C10, amended.  Take a response with status 200 whose body is a dict with a true
  (truthy) success flag, asked for a list of addresses that is not empty.  If the body
  has no \<open>data\<close> key, \<open>fetch_prices\<close> returns the empty mapping.  If \<open>data\<close> is a dict,
  the addresses whose entry is missing or empty add neither an entry nor an error: the
  outcome is that of the loop over the other addresses alone; it is the empty mapping
  when every requested address is such; and a returned mapping has no entry for them.
\<close>

theorem missing_data_omitted:
  assumes "addrs \<noteq> []" and "\<And>rq. nw rq = Some r" and "status_code r = 200"
    and "body r = Some (JObj kvs)" and "map_of kvs ''success'' = Some flag" and "py_truthy flag"
  shows "(map_of kvs ''data'' = None \<longrightarrow> snd (fetch_prices tok nw addrs) = Inr Map.empty) \<and>
    (\<forall>d. map_of kvs ''data'' = Some (JObj d) \<longrightarrow>
       snd (fetch_prices tok nw addrs)
         = collect_prices (JObj kvs) (filter (has_data d) addrs) Map.empty \<and>
       ((\<forall>a\<in>set addrs. \<not> has_data d a) \<longrightarrow> snd (fetch_prices tok nw addrs) = Inr Map.empty) \<and>
       (\<forall>m a. snd (fetch_prices tok nw addrs) = Inr m \<and> \<not> has_data d a \<longrightarrow> m a = None))"
proof -
  note ok = fetch_prices_ok[OF assms, of tok]
  have A: "snd (fetch_prices tok nw addrs) = Inr Map.empty" if "map_of kvs ''data'' = None"
    unfolding ok by (rule collect_prices_all_skipped) (rule price_entry_no_data[OF that])
  have B: "snd (fetch_prices tok nw addrs)
         = collect_prices (JObj kvs) (filter (has_data d) addrs) Map.empty"
    if "map_of kvs ''data'' = Some (JObj d)" for d
    unfolding ok
    by (rule collect_prices_filter[symmetric]) (rule price_entry_skip[OF that])
  have C: "snd (fetch_prices tok nw addrs) = Inr Map.empty"
    if "map_of kvs ''data'' = Some (JObj d)" and "\<forall>a\<in>set addrs. \<not> has_data d a" for d
    unfolding ok
    by (rule collect_prices_all_skipped) (use that price_entry_skip in blast)
  have D: "m a = None"
    if "map_of kvs ''data'' = Some (JObj d)" and "snd (fetch_prices tok nw addrs) = Inr m"
      and "\<not> has_data d a" for d m a
  proof -
    from that(2) have "collect_prices (JObj kvs) addrs Map.empty = Inr m" unfolding ok .
    from collect_prices_lookup[OF this, of a] price_entry_skip[OF that(1,3)]
    show ?thesis by simp
  qed
  from A B C D show ?thesis by blast
qed

theorem missing_data_omitted_witness:
  "snd (fetch_prices None
         (respond_with (json_response 200 (JObj [(''success'', JBool True)])))
         [system_program]) = Inr Map.empty \<and>
   snd (fetch_prices None
         (respond_with (json_response 200
            (JObj [(''success'', JBool True),
                   (''data'', JObj [(system_program, JObj [])])])))
         [system_program, wrapped_sol]) = Inr Map.empty"
proof -
  have A: "snd (fetch_prices None
         (respond_with (json_response 200 (JObj [(''success'', JBool True)])))
         [system_program]) = Inr Map.empty"
    using missing_data_omitted [where addrs = "[system_program]"
        and nw = "respond_with (json_response 200 (JObj [(''success'', JBool True)]))"
        and r = "json_response 200 (JObj [(''success'', JBool True)])"
        and kvs = "[(''success'', JBool True)]" and flag = "JBool True" and tok = None]
    by (simp add: respond_with_def json_response_def)
  have B: "snd (fetch_prices None
         (respond_with (json_response 200
            (JObj [(''success'', JBool True),
                   (''data'', JObj [(system_program, JObj [])])])))
         [system_program, wrapped_sol]) = Inr Map.empty"
    using missing_data_omitted [where addrs = "[system_program, wrapped_sol]"
        and nw = "respond_with (json_response 200
            (JObj [(''success'', JBool True),
                   (''data'', JObj [(system_program, JObj [])])]))"
        and r = "json_response 200
            (JObj [(''success'', JBool True),
                   (''data'', JObj [(system_program, JObj [])])])"
        and kvs = "[(''success'', JBool True),
                   (''data'', JObj [(system_program, JObj [])])]"
        and flag = "JBool True" and tok = None]
    by (simp add: respond_with_def json_response_def has_data_def system_program_def
        wrapped_sol_def)
  from A B show ?thesis by (rule conjI)
qed

subsection \<open>The overview of DexScreenerClient\<close>

lemma call_api_ok:
  assumes "token_address \<noteq> []" and "is_sol token_address" and "\<And>rq. nw rq = Some r"
    and "status_code r = 200" and "body r = Some j"
  shows "call_api is_sol nw token_address =
     ([Request ''GET'' (''https://api.dexscreener.io/latest/dex/tokens/'' @ token_address) []],
      Inr j)"
  using assms
  by (simp add: call_api_def validate_token_address_def validate_response_def Let_def send_def
      after_def bindE_def response_json_def)

lemma system_program_valid: "is_solana_address system_program"
  by code_simp

lemma system_program_nonempty: "system_program \<noteq> []"
  by (simp add: system_program_def)

text \<open>
  C2, as the claim states it, fails: with an empty \<open>pairs\<close> list the overview method
  lets the IndexError of \<open>data['pairs'][0]\<close> through; there is no guard before the
  indexing, and the module raises no NoPairsFoundError anywhere.
\<close>

theorem empty_pairs_counterexample:
  "snd (dex_fetch_token_overview is_solana_address
         (respond_with (json_response 200 (JObj [(''pairs'', JList [])])))
         system_program) = Inl IndexError"
proof -
  have "call_api is_solana_address
         (respond_with (json_response 200 (JObj [(''pairs'', JList [])]))) system_program
        = ([Request ''GET'' (''https://api.dexscreener.io/latest/dex/tokens/'' @ system_program) []],
           Inr (JObj [(''pairs'', JList [])]))"
    by (rule call_api_ok[where is_sol = is_solana_address
            and r = "json_response 200 (JObj [(''pairs'', JList [])])"])
      (simp_all add: respond_with_def json_response_def system_program_nonempty
        system_program_valid)
  then show ?thesis
    by (simp add: dex_fetch_token_overview_def after_def bindE_def)
qed

text \<open>
  C2, amended.  When the address passes validation and the response has status 200 and
  an empty \<open>pairs\<close> list, \<open>fetch_token_overview\<close> of DexScreenerClient fails with the
  IndexError raised by \<open>data['pairs'][0]\<close>, and returns no overview.
\<close>

theorem empty_pairs_index_error:
  assumes "address \<noteq> []" and "is_sol address" and "\<And>rq. nw rq = Some r"
    and "status_code r = 200" and "body r = Some (JObj kvs)"
    and "map_of kvs ''pairs'' = Some (JList [])"
  shows "snd (dex_fetch_token_overview is_sol nw address) = Inl IndexError"
  using assms(6)
  by (simp add: dex_fetch_token_overview_def call_api_ok[where is_sol = is_sol, OF assms(1-5)]
      after_def bindE_def)

theorem empty_pairs_index_error_witness:
  "snd (dex_fetch_token_overview is_solana_address
         (respond_with (json_response 200 (JObj [(''pairs'', JList []), (''schemaVersion'', JStr ''1.0.0'')])))
         wrapped_sol) = Inl IndexError"
proof -
  have v: "is_solana_address wrapped_sol" by code_simp
  have n: "wrapped_sol \<noteq> []" by (simp add: wrapped_sol_def)
  show ?thesis
    by (rule empty_pairs_index_error[where is_sol = is_solana_address
          and r = "json_response 200 (JObj [(''pairs'', JList []), (''schemaVersion'', JStr ''1.0.0'')])"
          and kvs = "[(''pairs'', JList []), (''schemaVersion'', JStr ''1.0.0'')]"])
      (simp_all add: respond_with_def json_response_def n v)
qed

subsection \<open>The loop of \<open>fetch_prices_dex\<close> and the keys of the two price mappings\<close>

lemma collect_pairs_append:
  "collect_pairs (xs @ ys) m0 =
     (case collect_pairs xs m0 of Inl e \<Rightarrow> Inl e | Inr m1 \<Rightarrow> collect_pairs ys m1)"
  by (induction xs arbitrary: m0) (auto split: sum.splits)

lemma collect_pairs_total:
  "(\<And>q. q \<in> set ps \<Longrightarrow> \<exists>k i. pair_price q = Inr (k, i)) \<Longrightarrow>
   \<exists>m. collect_pairs ps m0 = Inr m"
proof (induction ps arbitrary: m0)
  case Nil
  then show ?case by simp
next
  case (Cons p ps)
  from Cons.prems[of p] obtain k i where "pair_price p = Inr (k, i)" by auto
  moreover from Cons.prems have "\<And>q. q \<in> set ps \<Longrightarrow> \<exists>k i. pair_price q = Inr (k, i)" by auto
  from Cons.IH[OF this] have "\<exists>m. collect_pairs ps (m0(k \<mapsto> i)) = Inr m" .
  ultimately show ?case by simp
qed

lemma collect_pairs_keep:
  "collect_pairs ps m0 = Inr m \<Longrightarrow> (\<And>q j. q \<in> set ps \<Longrightarrow> pair_price q \<noteq> Inr (k, j)) \<Longrightarrow>
   m k = m0 k"
proof (induction ps arbitrary: m0)
  case Nil
  then show ?case by simp
next
  case (Cons p ps)
  from Cons.prems(1) obtain k' i where p: "pair_price p = Inr (k', i)"
    and rest: "collect_pairs ps (m0(k' \<mapsto> i)) = Inr m"
    by (auto split: sum.splits)
  from Cons.prems(2)[of p i] p have "k' \<noteq> k" by auto
  moreover have "m k = (m0(k' \<mapsto> i)) k"
    by (rule Cons.IH[OF rest]) (use Cons.prems(2) in auto)
  ultimately show ?case by simp
qed

lemma collect_pairs_last:
  assumes "collect_pairs (pre @ p # post) m0 = Inr m" and "pair_price p = Inr (k, i)"
    and "\<And>q j. q \<in> set post \<Longrightarrow> pair_price q \<noteq> Inr (k, j)"
  shows "m k = Some i"
proof -
  from assms(1) obtain m1 where "collect_pairs pre m0 = Inr m1"
    and "collect_pairs (p # post) m1 = Inr m"
    by (auto simp: collect_pairs_append split: sum.splits)
  with assms(2) have "collect_pairs post (m1(k \<mapsto> i)) = Inr m" by simp
  from collect_pairs_keep[OF this assms(3)] show ?thesis by simp
qed

lemma collect_pairs_dom:
  "collect_pairs ps m0 = Inr m \<Longrightarrow>
   dom m = dom m0 \<union> {k. \<exists>p\<in>set ps. \<exists>i. pair_price p = Inr (k, i)}"
proof (induction ps arbitrary: m0)
  case Nil
  then show ?case by simp
next
  case (Cons p ps)
  from Cons.prems(1) obtain k' i where p: "pair_price p = Inr (k', i)"
    and rest: "collect_pairs ps (m0(k' \<mapsto> i)) = Inr m"
    by (auto split: sum.splits)
  from Cons.IH[OF rest] p show ?case by (auto split: if_splits)
qed

lemma pair_price_key:
  "pair_price p = Inr (k, i) \<longleftrightarrow>
   (\<exists>pn price l u liq b a. py_getitem p ''priceNative'' = Inr pn \<and> Decimal pn = Inr price \<and>
      py_getitem p ''liquidity'' = Inr l \<and> py_getitem l ''usd'' = Inr u \<and> Decimal u = Inr liq \<and>
      py_getitem p ''baseToken'' = Inr b \<and> py_getitem b ''address'' = Inr a \<and> py_key a = Inr k \<and>
      i = PriceInfo price liq)"
  by (auto simp: pair_price_def bindE_def split: sum.splits)

lemma fetch_prices_dex_returns:
  assumes "\<And>rq. nw rq = Some r" and "body r = Some (JObj kvs)"
    and "map_of kvs ''pairs'' = Some (JList pairs)"
    and "snd (fetch_prices_dex is_sol nw addrs) = Inr m"
  shows "collect_pairs pairs Map.empty = Inr m"
  using assms
  by (auto simp: fetch_prices_dex_def call_api_bulk_def Let_def send_def after_def bindE_def
      response_json_def split: sum.splits if_splits)

lemma fetch_prices_dex_ok:
  assumes "validate_token_addresses is_sol addrs = Inr ()"
    and "\<And>rq. nw rq = Some r" and "status_code r = 200" and "body r = Some (JObj kvs)"
    and "map_of kvs ''pairs'' = Some (JList pairs)"
  shows "snd (fetch_prices_dex is_sol nw addrs) = collect_pairs pairs Map.empty"
  using assms
  by (simp add: fetch_prices_dex_def call_api_bulk_def Let_def send_def after_def bindE_def
      response_json_def validate_response_def)

lemma fetch_prices_returns:
  assumes "snd (fetch_prices tok nw addrs) = Inr m"
  shows "\<exists>data. collect_prices data addrs Map.empty = Inr m"
  using assms
  by (auto simp: fetch_prices_def make_api_call_def upper_char_def Let_def send_def after_def
      bindE_def response_json_def split: sum.splits if_splits option.splits)

lemma collect_pairs_all_priced:
  "collect_pairs ps m0 = Inr m \<Longrightarrow> p \<in> set ps \<Longrightarrow> \<exists>k i. pair_price p = Inr (k, i)"
  by (induction ps arbitrary: m0) (auto split: sum.splits)

lemma collect_prices_dom:
  "collect_prices data addrs Map.empty = Inr m \<Longrightarrow> dom m \<subseteq> set addrs"
proof
  fix a assume c: "collect_prices data addrs Map.empty = Inr m" and "a \<in> dom m"
  then have "m a \<noteq> None" by auto
  with collect_prices_lookup[OF c, of a] show "a \<in> set addrs"
    by (auto split: if_splits)
qed

lemma validate_system_program:
  "validate_token_addresses is_solana_address [system_program] = Inr ()"
  by code_simp

lemma quote_side_pair_price:
  "pair_price (sample_pair wrapped_sol system_program ''1.5'' (JInt 10))
   = Inr (JStr wrapped_sol, PriceInfo (Dec False 15 (- 1)) (Dec False 10 0))"
  by code_simp

lemma quote_side_result:
  "snd (fetch_prices_dex is_solana_address
         (respond_with (json_response 200 quote_side_response)) [system_program])
   = Inr [JStr wrapped_sol \<mapsto> PriceInfo (Dec False 15 (- 1)) (Dec False 10 0)]"
proof -
  have "snd (fetch_prices_dex is_solana_address
         (respond_with (json_response 200 quote_side_response)) [system_program])
     = collect_pairs [sample_pair wrapped_sol system_program ''1.5'' (JInt 10)] Map.empty"
    by (rule fetch_prices_dex_ok[where r = "json_response 200 quote_side_response"
          and kvs = "[(''pairs'', JList [sample_pair wrapped_sol system_program ''1.5'' (JInt 10)])]"])
      (simp_all add: validate_system_program respond_with_def json_response_def
        quote_side_response_def)
  then show ?thesis by (simp add: quote_side_pair_price)
qed

lemma wrapped_sol_not_system: "wrapped_sol \<notin> set [system_program]"
  by (simp add: wrapped_sol_def system_program_def)

lemma token1_entry:
  "price_entry token1_response ''TOKEN1''
   = Inr (Some (PriceInfo (Dec False 123 (- 2)) (Dec False 1000 0)))"
  by code_simp

lemma token2_entry: "price_entry token1_response ''TOKEN2'' = Inr None"
  by code_simp

lemma token1_result:
  "snd (fetch_prices None (respond_with (json_response 200 token1_response))
         [''TOKEN1'', ''TOKEN2''])
   = Inr [''TOKEN1'' \<mapsto> PriceInfo (Dec False 123 (- 2)) (Dec False 1000 0)]"
proof -
  have "snd (fetch_prices None (respond_with (json_response 200 token1_response))
         [''TOKEN1'', ''TOKEN2''])
     = collect_prices token1_response [''TOKEN1'', ''TOKEN2''] Map.empty"
    unfolding token1_response_def
    by (rule fetch_prices_ok[where r = "json_response 200 token1_response" and flag = "JBool True",
          unfolded token1_response_def])
      (simp_all add: respond_with_def json_response_def)
  then show ?thesis by (simp add: token1_entry token2_entry)
qed

text \<open>
  C1, as the claim states it, fails for \<open>fetch_prices_dex\<close>: asked for the system program
  only, and answered with a pair whose base token is the wrapped-SOL mint, it returns a
  mapping whose only key is the wrapped-SOL mint, an address that was not requested.
\<close>

theorem unrequested_key_counterexample:
  "snd (fetch_prices_dex is_solana_address
         (respond_with (json_response 200 quote_side_response)) [system_program])
     = Inr [JStr wrapped_sol \<mapsto> PriceInfo (Dec False 15 (- 1)) (Dec False 10 0)] \<and>
   wrapped_sol \<notin> set [system_program]"
  using quote_side_result wrapped_sol_not_system by (rule conjI)

text \<open>
  C1, amended.  Whenever \<open>fetch_prices\<close> returns a mapping, its keys are among the
  requested addresses.  Whenever \<open>fetch_prices_dex\<close> returns a mapping, its keys are
  exactly the base-token addresses of the pairs of the response, requested or not (each
  as the dict key it makes).
\<close>

theorem price_keys:
  "(\<forall>m. snd (fetch_prices tok nw addrs) = Inr m \<longrightarrow> dom m \<subseteq> set addrs) \<and>
   (\<forall>r kvs pairs m.
      (\<forall>rq. nw rq = Some r) \<and> body r = Some (JObj kvs) \<and>
      map_of kvs ''pairs'' = Some (JList pairs) \<and>
      snd (fetch_prices_dex is_sol nw addrs) = Inr m \<longrightarrow>
      dom m = {k. \<exists>p\<in>set pairs. \<exists>b a. py_getitem p ''baseToken'' = Inr b \<and>
                     py_getitem b ''address'' = Inr a \<and> py_key a = Inr k})"
proof (intro conjI allI impI)
  fix m assume "snd (fetch_prices tok nw addrs) = Inr m"
  from fetch_prices_returns[OF this] collect_prices_dom show "dom m \<subseteq> set addrs" by blast
next
  fix r kvs pairs m
  assume h: "(\<forall>rq. nw rq = Some r) \<and> body r = Some (JObj kvs) \<and>
      map_of kvs ''pairs'' = Some (JList pairs) \<and>
      snd (fetch_prices_dex is_sol nw addrs) = Inr m"
  then have c: "collect_pairs pairs Map.empty = Inr m"
    using fetch_prices_dex_returns[of nw r kvs pairs is_sol addrs m] by blast
  from collect_pairs_dom[OF c]
  have d: "dom m = {k. \<exists>p\<in>set pairs. \<exists>i. pair_price p = Inr (k, i)}" by simp
  show "dom m = {k. \<exists>p\<in>set pairs. \<exists>b a. py_getitem p ''baseToken'' = Inr b \<and>
                     py_getitem b ''address'' = Inr a \<and> py_key a = Inr k}"
  proof (rule set_eqI, rule iffI)
    fix k assume "k \<in> dom m"
    with d obtain p i where "p \<in> set pairs" and "pair_price p = Inr (k, i)" by auto
    then show "k \<in> {k. \<exists>p\<in>set pairs. \<exists>b a. py_getitem p ''baseToken'' = Inr b \<and>
                     py_getitem b ''address'' = Inr a \<and> py_key a = Inr k}"
      unfolding pair_price_key by blast
  next
    fix k assume "k \<in> {k. \<exists>p\<in>set pairs. \<exists>b a. py_getitem p ''baseToken'' = Inr b \<and>
                     py_getitem b ''address'' = Inr a \<and> py_key a = Inr k}"
    then obtain p b a where p: "p \<in> set pairs" and b: "py_getitem p ''baseToken'' = Inr b"
      and a: "py_getitem b ''address'' = Inr a" and k: "py_key a = Inr k" by blast
    from collect_pairs_all_priced[OF c p] obtain k' i where pp: "pair_price p = Inr (k', i)"
      by blast
    with b a k have "k' = k" unfolding pair_price_key by auto
    with pp p d show "k \<in> dom m" by blast
  qed
qed

theorem price_keys_witness:
  "snd (fetch_prices None (respond_with (json_response 200 token1_response))
         [''TOKEN1'', ''TOKEN2''])
     = Inr [''TOKEN1'' \<mapsto> PriceInfo (Dec False 123 (- 2)) (Dec False 1000 0)] \<and>
   dom [''TOKEN1'' \<mapsto> PriceInfo (Dec False 123 (- 2)) (Dec False 1000 0)]
     \<subseteq> set [''TOKEN1'', ''TOKEN2''] \<and>
   snd (fetch_prices_dex is_solana_address
         (respond_with (json_response 200 quote_side_response)) [system_program])
     = Inr [JStr wrapped_sol \<mapsto> PriceInfo (Dec False 15 (- 1)) (Dec False 10 0)] \<and>
   dom [JStr wrapped_sol \<mapsto> PriceInfo (Dec False 15 (- 1)) (Dec False 10 0)]
     = {k. \<exists>p\<in>set [sample_pair wrapped_sol system_program ''1.5'' (JInt 10)].
             \<exists>b a. py_getitem p ''baseToken'' = Inr b \<and>
                   py_getitem b ''address'' = Inr a \<and> py_key a = Inr k}"
proof -
  have A: "dom [''TOKEN1'' \<mapsto> PriceInfo (Dec False 123 (- 2)) (Dec False 1000 0)]
     \<subseteq> set [''TOKEN1'', ''TOKEN2'']"
    using price_keys [of None "respond_with (json_response 200 token1_response)"
        "[''TOKEN1'', ''TOKEN2'']"] token1_result
    by blast
  have B: "dom [JStr wrapped_sol \<mapsto> PriceInfo (Dec False 15 (- 1)) (Dec False 10 0)]
     = {k. \<exists>p\<in>set [sample_pair wrapped_sol system_program ''1.5'' (JInt 10)].
             \<exists>b a. py_getitem p ''baseToken'' = Inr b \<and>
                   py_getitem b ''address'' = Inr a \<and> py_key a = Inr k}"
  proof -
    have h: "(\<forall>rq. respond_with (json_response 200 quote_side_response) rq
                  = Some (json_response 200 quote_side_response)) \<and>
        body (json_response 200 quote_side_response)
          = Some (JObj [(''pairs'', JList [sample_pair wrapped_sol system_program ''1.5'' (JInt 10)])]) \<and>
        map_of [(''pairs'', JList [sample_pair wrapped_sol system_program ''1.5'' (JInt 10)])] ''pairs''
          = Some (JList [sample_pair wrapped_sol system_program ''1.5'' (JInt 10)]) \<and>
        snd (fetch_prices_dex is_solana_address
              (respond_with (json_response 200 quote_side_response)) [system_program])
          = Inr [JStr wrapped_sol \<mapsto> PriceInfo (Dec False 15 (- 1)) (Dec False 10 0)]"
      using quote_side_result
      by (simp add: respond_with_def json_response_def quote_side_response_def)
    from price_keys [of None "respond_with (json_response 200 quote_side_response)"
        "[system_program]" is_solana_address]
    have "\<forall>r kvs pairs m.
      (\<forall>rq. respond_with (json_response 200 quote_side_response) rq = Some r) \<and>
      body r = Some (JObj kvs) \<and> map_of kvs ''pairs'' = Some (JList pairs) \<and>
      snd (fetch_prices_dex is_solana_address
            (respond_with (json_response 200 quote_side_response)) [system_program]) = Inr m \<longrightarrow>
      dom m = {k. \<exists>p\<in>set pairs. \<exists>b a. py_getitem p ''baseToken'' = Inr b \<and>
                     py_getitem b ''address'' = Inr a \<and> py_key a = Inr k}"
      by (rule conjunct2)
    from this[rule_format, OF h] show ?thesis .
  qed
  from token1_result A quote_side_result B show ?thesis by blast
qed

text \<open>
  C7.  Take a list of addresses that passes validation and a response with status 200
  whose pairs all convert (native price and USD liquidity that \<open>Decimal\<close> accepts, a
  hashable base-token address).  Then \<open>fetch_prices_dex\<close> returns a mapping, and for every
  pair after which no pair of the response has the same base-token address, the mapping
  holds under that address the PriceInfo built from that pair: the last pair wins.
\<close>

theorem last_pair_wins:
  assumes "validate_token_addresses is_sol addrs = Inr ()"
    and "\<And>rq. nw rq = Some r" and "status_code r = 200" and "body r = Some (JObj kvs)"
    and "map_of kvs ''pairs'' = Some (JList pairs)"
    and "\<forall>q\<in>set pairs. \<exists>k i. pair_price q = Inr (k, i)"
  shows "\<exists>m. snd (fetch_prices_dex is_sol nw addrs) = Inr m \<and>
     (\<forall>pre p post k info.
        pairs = pre @ p # post \<and> pair_price p = Inr (k, info) \<and>
        (\<forall>q\<in>set post. \<forall>j. pair_price q \<noteq> Inr (k, j)) \<longrightarrow> m k = Some info)"
proof -
  note ok = fetch_prices_dex_ok[OF assms(1-5)]
  from assms(6) have "\<And>q. q \<in> set pairs \<Longrightarrow> \<exists>k i. pair_price q = Inr (k, i)" by blast
  from collect_pairs_total[OF this] obtain m where m: "collect_pairs pairs Map.empty = Inr m"
    by blast
  have "m k = Some info"
    if "pairs = pre @ p # post" and "pair_price p = Inr (k, info)"
      and "\<forall>q\<in>set post. \<forall>j. pair_price q \<noteq> Inr (k, j)" for pre p post k info
    using collect_pairs_last[of pre p post Map.empty m k info] m that by blast
  with m ok show ?thesis by auto
qed

lemma validate_two: "validate_token_addresses is_solana_address [system_program, wrapped_sol] = Inr ()"
  by code_simp

lemma pool_prices:
  "pair_price (sample_pair system_program wrapped_sol ''1.0'' (JInt 900))
     = Inr (JStr system_program, PriceInfo (Dec False 10 (- 1)) (Dec False 900 0))"
  "pair_price (sample_pair wrapped_sol system_program ''2.0'' (JInt 50))
     = Inr (JStr wrapped_sol, PriceInfo (Dec False 20 (- 1)) (Dec False 50 0))"
  "pair_price (sample_pair system_program wrapped_sol ''3.0'' (JInt 7))
     = Inr (JStr system_program, PriceInfo (Dec False 30 (- 1)) (Dec False 7 0))"
  by code_simp+

theorem last_pair_wins_witness:
  "\<exists>m. snd (fetch_prices_dex is_solana_address
              (respond_with (json_response 200 two_pools_response))
              [system_program, wrapped_sol]) = Inr m \<and>
       m (JStr system_program) = Some (PriceInfo (Dec False 30 (- 1)) (Dec False 7 0))"
proof -
  have wf: "\<forall>q\<in>set [sample_pair system_program wrapped_sol ''1.0'' (JInt 900),
        sample_pair wrapped_sol system_program ''2.0'' (JInt 50),
        sample_pair system_program wrapped_sol ''3.0'' (JInt 7)]. \<exists>k i. pair_price q = Inr (k, i)"
    by (simp add: pool_prices)
  from last_pair_wins [where is_sol = is_solana_address
      and addrs = "[system_program, wrapped_sol]"
      and nw = "respond_with (json_response 200 two_pools_response)"
      and r = "json_response 200 two_pools_response"
      and kvs = "[(''pairs'', JList
       [sample_pair system_program wrapped_sol ''1.0'' (JInt 900),
        sample_pair wrapped_sol system_program ''2.0'' (JInt 50),
        sample_pair system_program wrapped_sol ''3.0'' (JInt 7)])]", OF validate_two _ _ _ _ wf]
  obtain m where m: "snd (fetch_prices_dex is_solana_address
              (respond_with (json_response 200 two_pools_response))
              [system_program, wrapped_sol]) = Inr m"
    and l: "\<And>pre p post k info.
        [sample_pair system_program wrapped_sol ''1.0'' (JInt 900),
         sample_pair wrapped_sol system_program ''2.0'' (JInt 50),
         sample_pair system_program wrapped_sol ''3.0'' (JInt 7)] = pre @ p # post \<Longrightarrow>
        pair_price p = Inr (k, info) \<Longrightarrow>
        (\<forall>q\<in>set post. \<forall>j. pair_price q \<noteq> Inr (k, j)) \<Longrightarrow> m k = Some info"
    by (auto simp: respond_with_def json_response_def two_pools_response_def)
  have "m (JStr system_program) = Some (PriceInfo (Dec False 30 (- 1)) (Dec False 7 0))"
    by (rule l[of "[sample_pair system_program wrapped_sol ''1.0'' (JInt 900),
         sample_pair wrapped_sol system_program ''2.0'' (JInt 50)]"
         "sample_pair system_program wrapped_sol ''3.0'' (JInt 7)" "[]"])
      (simp_all add: pool_prices)
  with m show ?thesis by blast
qed

subsection \<open>The selection of the largest pool with SOL\<close>

lemma pair_matches_shaped:
  "pair_shaped e \<Longrightarrow> pair_matches SOL_MINT address e = Inr (is_sol_pool SOL_MINT address e)"
  by (auto simp: pair_shaped_def pair_matches_def is_sol_pool_def base_address_def
      quote_address_def field_def bindE_def split: json.splits option.splits)


lemma largest_loop_no_match:
  "(\<And>e. e \<in> set ps \<Longrightarrow> pair_shaped e) \<Longrightarrow>
   (\<And>e. e \<in> set ps \<Longrightarrow> \<not> is_sol_pool SOL_MINT address e) \<Longrightarrow>
   largest_loop SOL_MINT address ps st = Inr st"
proof (induction ps arbitrary: st)
  case Nil
  then show ?case by simp
next
  case (Cons x xs)
  obtain me ml where st: "st = (me, ml)" by (cases st)
  from Cons.prems have "pair_matches SOL_MINT address x = Inr False"
    by (simp add: pair_matches_shaped)
  moreover have "largest_loop SOL_MINT address xs st = Inr st"
    by (rule Cons.IH) (use Cons.prems in auto)
  ultimately show ?case unfolding st by simp
qed





text \<open>
  C3, as the claim states it, fails: the function raises on pair records of some
  shapes though no pair matches.  A record with a matching base token and no
  \<open>quoteToken\<close> raises KeyError, since the quote token is read by subscript; a record whose
  \<open>baseToken\<close> is a string raises AttributeError, since \<open>get\<close> is called on it.
\<close>

theorem ill_shaped_pair_counterexample:
  "\<not> is_sol_pool (Some ''SOL'') ''X'' (JObj [(''baseToken'', JObj [(''address'', JStr ''X'')])]) \<and>
   find_largest_pool_with_sol (Some ''SOL'')
     [JObj [(''baseToken'', JObj [(''address'', JStr ''X'')])]] ''X'' = Inl KeyError \<and>
   \<not> is_sol_pool (Some ''SOL'') ''X''
       (JObj [(''baseToken'', JStr ''X''), (''quoteToken'', JObj [(''address'', JStr ''SOL'')])]) \<and>
   find_largest_pool_with_sol (Some ''SOL'')
     [JObj [(''baseToken'', JStr ''X''), (''quoteToken'', JObj [(''address'', JStr ''SOL'')])]]
     ''X'' = Inl AttributeError"
  by (simp add: find_largest_pool_with_sol_def pair_matches_def bindE_def is_sol_pool_def
      base_address_def quote_address_def field_def)

text \<open>
  C3, amended.  For every list of pair records that are dicts whose \<open>baseToken\<close>, when
  there is one, is a dict and whose \<open>quoteToken\<close> is a dict with an \<open>address\<close>: when no
  pair matches, \<open>find_largest_pool_with_sol\<close> returns the empty dict and raises nothing.
\<close>

theorem no_match_empty_result:
  assumes "\<forall>e\<in>set token_pairs. pair_shaped e"
    and "\<forall>e\<in>set token_pairs. \<not> is_sol_pool SOL_MINT address e"
  shows "find_largest_pool_with_sol SOL_MINT token_pairs address = Inr (JObj [])"
proof -
  have "largest_loop SOL_MINT address token_pairs (JObj [], Finite (- 1))
        = Inr (JObj [], Finite (- 1))"
    by (rule largest_loop_no_match) (use assms in auto)
  then show ?thesis by (simp add: find_largest_pool_with_sol_def bindE_def)
qed

theorem no_match_empty_result_witness:
  "find_largest_pool_with_sol (Some ''SOL'')
     [sample_pair ''X'' ''OTHER'' ''1'' (JInt 900),
      sample_pair ''Y'' ''SOL'' ''1'' (JInt 5),
      JObj [(''quoteToken'', JObj [(''address'', JStr ''SOL'')])]] ''X'' = Inr (JObj [])"
  by (rule no_match_empty_result)
    (simp_all add: pair_shaped_def sample_pair_def is_sol_pool_def base_address_def
      quote_address_def field_def of_optstr_def)






subsection \<open>The entries of the multi-price mapping\<close>

lemma decimal_zero: "decimal_of_string ''0'' = Inr (Dec False 0 0)"
  by code_simp

lemma field_decimal_present:
  "map_of item k = Some v \<Longrightarrow> field_decimal (JObj item) k = Decimal v"
  by (simp add: field_decimal_def bindE_def)

lemma field_decimal_absent:
  "map_of item k = None \<Longrightarrow> field_decimal (JObj item) k = Inr (Dec False 0 0)"
  by (simp add: field_decimal_def bindE_def decimal_zero)

lemma price_entry_present:
  assumes "map_of kvs ''data'' = Some (JObj d)" and "map_of d a = Some v" and "py_truthy v"
    and "field_decimal v ''price'' = Inr p" and "field_decimal v ''liquidity'' = Inr l"
  shows "price_entry (JObj kvs) a = Inr (Some (PriceInfo p l))"
  using assms by (simp add: price_entry_def bindE_def)

text \<open>
  C8.  Take a response with status 200 whose body is a dict with a true (truthy) success
  flag and a dict \<open>data\<close>, asked for a list of addresses that is not empty, such that for
  each requested address with data the price and the liquidity of its entry convert
  (to \<open>price_of a\<close> and \<open>liquidity_of a\<close>).  Then \<open>fetch_prices\<close> returns a mapping that
  holds exactly the requested addresses with data, each with the PriceInfo of its two
  decimals; the other addresses are left out, and nothing is raised.  The decimal of a
  field is \<open>Decimal\<close> of its value when the entry has the field, and \<open>Decimal("0")\<close>, zero,
  when it has not.
\<close>

theorem prices_for_present_addresses:
  assumes "addrs \<noteq> []" and "\<And>rq. nw rq = Some r" and "status_code r = 200"
    and "body r = Some (JObj kvs)" and "map_of kvs ''success'' = Some flag" and "py_truthy flag"
    and "map_of kvs ''data'' = Some (JObj d)"
    and "\<forall>a\<in>set addrs. \<forall>v. map_of d a = Some v \<and> py_truthy v \<longrightarrow>
           field_decimal v ''price'' = Inr (price_of a) \<and>
           field_decimal v ''liquidity'' = Inr (liquidity_of a)"
  shows "(\<exists>m. snd (fetch_prices tok nw addrs) = Inr m \<and>
            (\<forall>a. m a = (if a \<in> set addrs \<and> has_data d a
                        then Some (PriceInfo (price_of a) (liquidity_of a)) else None))) \<and>
         (\<forall>item k v. map_of item k = Some v \<longrightarrow> field_decimal (JObj item) k = Decimal v) \<and>
         (\<forall>item k. map_of item k = None \<longrightarrow>
            field_decimal (JObj item) k = Inr (Dec False 0 0))"
proof -
  note ok = fetch_prices_ok[OF assms(1-6), of tok]
  have pe: "price_entry (JObj kvs) a
            = Inr (if has_data d a then Some (PriceInfo (price_of a) (liquidity_of a)) else None)"
    if "a \<in> set addrs" for a
  proof (cases "has_data d a")
    case False
    with price_entry_skip[OF assms(7) False] show ?thesis by simp
  next
    case True
    then obtain v where v: "map_of d a = Some v" and t: "py_truthy v"
      by (auto simp: has_data_def split: option.splits)
    with assms(8) that have "field_decimal v ''price'' = Inr (price_of a)"
      and "field_decimal v ''liquidity'' = Inr (liquidity_of a)" by auto
    from price_entry_present[OF assms(7) v t this] True show ?thesis by simp
  qed
  then have "\<And>a. a \<in> set addrs \<Longrightarrow> \<exists>r. price_entry (JObj kvs) a = Inr r" by blast
  from collect_prices_total[OF this] obtain m
    where m: "collect_prices (JObj kvs) addrs Map.empty = Inr m" by blast
  have "m a = (if a \<in> set addrs \<and> has_data d a
                 then Some (PriceInfo (price_of a) (liquidity_of a)) else None)" for a
    using collect_prices_lookup[OF m, of a] pe[of a] by auto
  with m ok have "\<exists>m. snd (fetch_prices tok nw addrs) = Inr m \<and>
            (\<forall>a. m a = (if a \<in> set addrs \<and> has_data d a
                        then Some (PriceInfo (price_of a) (liquidity_of a)) else None))"
    by auto
  then show ?thesis
    using field_decimal_present field_decimal_absent by blast
qed

lemma token1_fields:
  "field_decimal (JObj [(''price'', JStr ''1.23''), (''liquidity'', JStr ''1000'')]) ''price''
     = Inr (Dec False 123 (- 2))"
  "field_decimal (JObj [(''price'', JStr ''1.23''), (''liquidity'', JStr ''1000'')]) ''liquidity''
     = Inr (Dec False 1000 0)"
  by code_simp+

theorem prices_for_present_addresses_witness:
  "\<exists>m. snd (fetch_prices None (respond_with (json_response 200 token1_response))
              [''TOKEN1'', ''TOKEN2'']) = Inr m \<and>
       m ''TOKEN1'' = Some (PriceInfo (Dec False 123 (- 2)) (Dec False 1000 0)) \<and>
       m ''TOKEN2'' = None \<and> dom m = {''TOKEN1''}"
proof -
  have h: "\<forall>a\<in>set [''TOKEN1'', ''TOKEN2'']. \<forall>v.
      map_of [(''TOKEN1'', JObj [(''price'', JStr ''1.23''), (''liquidity'', JStr ''1000'')])] a
        = Some v \<and> py_truthy v \<longrightarrow>
      field_decimal v ''price'' = Inr (Dec False 123 (- 2)) \<and>
      field_decimal v ''liquidity'' = Inr (Dec False 1000 0)"
    by (simp add: token1_fields)
  have "\<exists>m. snd (fetch_prices None (respond_with (json_response 200 token1_response))
              [''TOKEN1'', ''TOKEN2'']) = Inr m \<and>
      (\<forall>a. m a = (if a \<in> set [''TOKEN1'', ''TOKEN2''] \<and>
                     has_data [(''TOKEN1'', JObj [(''price'', JStr ''1.23''),
                                                  (''liquidity'', JStr ''1000'')])] a
                  then Some (PriceInfo (Dec False 123 (- 2)) (Dec False 1000 0)) else None))"
    using prices_for_present_addresses [where addrs = "[''TOKEN1'', ''TOKEN2'']"
        and nw = "respond_with (json_response 200 token1_response)"
        and r = "json_response 200 token1_response"
        and kvs = "[(''success'', JBool True),
           (''data'', JObj [(''TOKEN1'',
              JObj [(''price'', JStr ''1.23''), (''liquidity'', JStr ''1000'')])])]"
        and flag = "JBool True"
        and d = "[(''TOKEN1'', JObj [(''price'', JStr ''1.23''), (''liquidity'', JStr ''1000'')])]"
        and price_of = "\<lambda>a. Dec False 123 (- 2)" and liquidity_of = "\<lambda>a. Dec False 1000 0"
        and tok = None, OF _ _ _ _ _ _ _ h]
    by (simp add: respond_with_def json_response_def token1_response_def)
  then obtain m where m: "snd (fetch_prices None (respond_with (json_response 200 token1_response))
              [''TOKEN1'', ''TOKEN2'']) = Inr m"
    and l: "\<And>a. m a = (if a \<in> set [''TOKEN1'', ''TOKEN2''] \<and>
                     has_data [(''TOKEN1'', JObj [(''price'', JStr ''1.23''),
                                                  (''liquidity'', JStr ''1000'')])] a
                  then Some (PriceInfo (Dec False 123 (- 2)) (Dec False 1000 0)) else None)"
    by blast
  have hd: "has_data [(''TOKEN1'', JObj [(''price'', JStr ''1.23''),
                                         (''liquidity'', JStr ''1000'')])] a \<longleftrightarrow> a = ''TOKEN1''" for a
    by (simp add: has_data_def)
  have 1: "m ''TOKEN1'' = Some (PriceInfo (Dec False 123 (- 2)) (Dec False 1000 0))"
    by (simp add: l hd)
  have 2: "m ''TOKEN2'' = None"
    by (simp add: l hd)
  have 3: "dom m = {''TOKEN1''}"
    by (auto simp: dom_def l hd)
  from m 1 2 3 show ?thesis by blast
qed

subsection \<open>Decimal strings are read exactly\<close>
















end
